theory Spec2Isabelle
  imports Complex_Main
begin

chapter \<open>Model of the program\<close>

section \<open>Quota computation (calculateTopicQuestions)\<close>

text \<open>
  A topic as the generator reads it from storage. The field \<open>weightage\<close> is a number
  that the code always reads through \<open>topic.weightage || d\<close>, so a missing value
  (\<open>null\<close>) is modelled as \<open>None\<close>. Weights are modelled as exact rationals;
  the target total comes from \<open>parseInt\<close> and is an integer. Storage holds weights
  from 0 to 1; a quotient by a zero total, which only a list without a positive weight
  but with a negative one could produce, is outside what the model is meant for.
\<close>

record Topic =
  topic_id :: string
  topic_name :: string
  weightage :: "rat option"

record TopicQuota = Topic +
  questionsToGenerate :: int

record CalculationResult =
  topics :: "TopicQuota list"
  totalQuestionsToGenerate :: int
  extraQuestionsCount :: int

text \<open>\<open>topic.weightage || d\<close>: the default replaces a missing weight and the weight 0.\<close>

definition weightage_or :: "'a Topic_scheme \<Rightarrow> rat \<Rightarrow> rat" where
  "weightage_or t d = (case weightage t of None \<Rightarrow> d | Some w \<Rightarrow> if w = 0 then d else w)"

text \<open>\<open>Math.round\<close>: the nearest integer, a tie going up.\<close>

definition js_round :: "rat \<Rightarrow> int" where
  "js_round x = \<lfloor>x + 1 / 2\<rfloor>"

definition with_quota :: "Topic \<Rightarrow> int \<Rightarrow> TopicQuota" where
  "with_quota t q = Topic.extend t (TopicQuota.fields q)"

definition calculateTopicQuestions :: "Topic list \<Rightarrow> int \<Rightarrow> CalculationResult" where
  "calculateTopicQuestions tps totalQuestions =
     (let topicsWithWeightage = filter (\<lambda>t. weightage_or t 0 > 0) tps;
          topicsWithoutWeightage = filter (\<lambda>t. weightage_or t 0 = 0) tps;
          totalWeightage = foldl (\<lambda>sum t. sum + weightage_or t (2 / 100)) 0 topicsWithWeightage;
          shouldGenerateForZeroWeightage = (totalQuestions \<ge> 500);
          extraQuestionsCount =
            (if shouldGenerateForZeroWeightage then int (length topicsWithoutWeightage) else 0);
          result = map (\<lambda>t.
            let topicWeightage = weightage_or t 0 in
            if topicWeightage = 0
            then with_quota t (if shouldGenerateForZeroWeightage then 1 else 0)
            else with_quota t
                   (max 1 (js_round ((topicWeightage / totalWeightage) * of_int totalQuestions)))) tps
      in \<lparr> topics = result,
           totalQuestionsToGenerate = totalQuestions + extraQuestionsCount,
           extraQuestionsCount = extraQuestionsCount \<rparr>)"

text \<open>The targets that \<open>loadStats\<close> computes for its statistics, by the same rule.\<close>

definition loadStats_targets :: "Topic list \<Rightarrow> int \<Rightarrow> int list" where
  "loadStats_targets tps totalTarget =
     (let topicsWithWeightage = filter (\<lambda>t. weightage_or t 0 > 0) tps;
          totalWeightage = foldl (\<lambda>sum t. sum + weightage_or t (2 / 100)) 0 topicsWithWeightage;
          shouldGenerateForZeroWeightage = (totalTarget \<ge> 500)
      in map (\<lambda>topic.
            let topicWeightage = weightage_or topic 0 in
            if topicWeightage = 0
            then (if shouldGenerateForZeroWeightage then 1 else 0)
            else max 1 (js_round ((topicWeightage / totalWeightage) * of_int totalTarget))) tps)"



definition zero_weight_count :: "Topic list \<Rightarrow> nat" where
  "zero_weight_count tps = length (filter (\<lambda>t. weightage_or t 0 = 0) tps)"

definition mk_topic :: "string \<Rightarrow> rat option \<Rightarrow> Topic" where
  "mk_topic n w = \<lparr> topic_id = n, topic_name = n, weightage = w \<rparr>"


section \<open>JavaScript strings\<close>

text \<open>
  A JavaScript string is a sequence of UTF-16 code units; the regular expressions of the
  program carry no \<open>u\<close> flag and work on code units too. A code unit is modelled as
  a natural number, and \<open>S\<close> turns an ASCII literal into its code units.
\<close>

type_synonym js_string = "nat list"

definition S :: "string \<Rightarrow> js_string" where
  "S s = map of_char s"

text \<open>The backslash and the backtick, which a literal cannot hold.\<close>

definition bsl :: nat where
  "bsl = 92"

definition btick :: nat where
  "btick = 96"

text \<open>
  The characters that \<open>\s\<close> matches and \<open>trim\<close> strips: the white space and line
  terminator code units of ECMAScript.
\<close>

definition js_space :: "nat \<Rightarrow> bool" where
  "js_space c = (c = 9 \<or> c = 10 \<or> c = 11 \<or> c = 12 \<or> c = 13 \<or> c = 32 \<or> c = 160
     \<or> c = 5760 \<or> (8192 \<le> c \<and> c \<le> 8202) \<or> c = 8232 \<or> c = 8233 \<or> c = 8239
     \<or> c = 8287 \<or> c = 12288 \<or> c = 65279)"

definition trimStart :: "js_string \<Rightarrow> js_string" where
  "trimStart s = dropWhile js_space s"

definition trimEnd :: "js_string \<Rightarrow> js_string" where
  "trimEnd s = rev (dropWhile js_space (rev s))"

definition trim :: "js_string \<Rightarrow> js_string" where
  "trim s = trimEnd (trimStart s)"

definition starts_with :: "js_string \<Rightarrow> js_string \<Rightarrow> bool" where
  "starts_with p s = (take (length p) s = p)"

text \<open>\<open>s.includes(sub)\<close>\<close>

fun js_includes :: "js_string \<Rightarrow> js_string \<Rightarrow> bool" where
  "js_includes [] sub = (sub = [])"
| "js_includes (c # cs) sub = (starts_with sub (c # cs) \<or> js_includes cs sub)"

text \<open>The decimal digits of a number, as a template literal prints it.\<close>

function num_str :: "nat \<Rightarrow> js_string" where
  "num_str n = (if n < 10 then [48 + n] else num_str (n div 10) @ [48 + n mod 10])"
  by pat_completeness auto
termination
  by (relation "measure id") auto

declare num_str.simps [simp del]

text \<open>A thrown value: an \<open>Error\<close> with its message, or the engine's \<open>TypeError\<close>.\<close>

datatype js_error = Error js_string | TypeError

section \<open>Structural validation (validateQuestionAnswer, generateNewQuestions)\<close>



text \<open>\<open>!s\<close> for an optional string: absent or empty.\<close>

definition falsy_str :: "js_string option \<Rightarrow> bool" where
  "falsy_str s = (case s of None \<Rightarrow> True | Some t \<Rightarrow> t = [])"






section \<open>API key pool (setGeminiApiKeys, getNextGeminiKey, markKeyError, markKeySuccess)\<close>

record ApiKeyState =
  key :: js_string
  usageCount :: nat
  errorCount :: nat
  lastError :: "js_string option"
  lastUsedAt :: "nat option"
  isActive :: bool

text \<open>The two module variables that the pool functions share.\<close>

record KeyPool =
  API_KEY_STATES :: "ApiKeyState list"
  currentKeyIndex :: nat

definition initial_pool :: KeyPool where
  "initial_pool = \<lparr> API_KEY_STATES = [], currentKeyIndex = 0 \<rparr>"

definition setGeminiApiKeys :: "js_string list \<Rightarrow> js_error + KeyPool" where
  "setGeminiApiKeys keys =
     (let validKeys = filter (\<lambda>k. trim k \<noteq> []) keys in
      if length validKeys = 0 then Inl (Error (S ''No valid API keys provided''))
      else Inr \<lparr> API_KEY_STATES =
                   map (\<lambda>k. \<lparr> key = trim k, usageCount = 0, errorCount = 0, lastError = None,
                               lastUsedAt = None, isActive = True \<rparr>) validKeys,
                 currentKeyIndex = 0 \<rparr>)"

text \<open>
  The \<open>while\<close> loop of \<open>getNextGeminiKey\<close>: at most one look at every key, cyclically
  from \<open>selectedIndex\<close>. Reading a key beyond the array is a \<open>TypeError\<close> in the source.
\<close>

datatype scan_result = Found nat | OutOfRange | AllInactive

function scanKeys :: "ApiKeyState list \<Rightarrow> nat \<Rightarrow> nat \<Rightarrow> scan_result" where
  "scanKeys ks attempts selectedIndex =
     (if attempts < length ks then
        (if selectedIndex < length ks then
           (if isActive (ks ! selectedIndex) then Found selectedIndex
            else scanKeys ks (attempts + 1) ((selectedIndex + 1) mod length ks))
         else OutOfRange)
      else AllInactive)"
  by pat_completeness auto
termination
  by (relation "measure (\<lambda>(ks, attempts, selectedIndex). length ks - attempts)") auto

declare scanKeys.simps [simp del]

definition resetAll :: "KeyPool \<Rightarrow> KeyPool" where
  "resetAll st = st\<lparr>API_KEY_STATES :=
     map (\<lambda>s. s\<lparr>isActive := True, errorCount := 0\<rparr>) (API_KEY_STATES st)\<rparr>"

definition useKey :: "nat \<Rightarrow> nat \<Rightarrow> KeyPool \<Rightarrow> (js_string \<times> nat) \<times> KeyPool" where
  "useKey now selectedIndex st =
     (let ks = API_KEY_STATES st;
          keyState = ks ! selectedIndex;
          keyState' = keyState\<lparr>usageCount := usageCount keyState + 1, lastUsedAt := Some now\<rparr>
      in ((key keyState', selectedIndex),
          \<lparr> API_KEY_STATES = ks[selectedIndex := keyState'],
            currentKeyIndex = (selectedIndex + 1) mod length ks \<rparr>))"

definition inactive_count :: "KeyPool \<Rightarrow> nat" where
  "inactive_count st = length (filter (\<lambda>s. \<not> isActive s) (API_KEY_STATES st))"

text \<open>
  \<open>getNextGeminiKey\<close>, with the clock reading \<open>now\<close>. When every key is inactive the
  source resets all keys and calls itself again.
\<close>

function getNextGeminiKey :: "nat \<Rightarrow> KeyPool \<Rightarrow> js_error + ((js_string \<times> nat) \<times> KeyPool)" where
  "getNextGeminiKey now st =
     (if length (API_KEY_STATES st) = 0
      then Inl (Error (S ''No Gemini API keys configured. Please add API keys first.''))
      else (case scanKeys (API_KEY_STATES st) 0 (currentKeyIndex st) of
              Found selectedIndex \<Rightarrow> Inr (useKey now selectedIndex st)
            | OutOfRange \<Rightarrow> Inl TypeError
            | AllInactive \<Rightarrow> getNextGeminiKey now (resetAll st)))"
  by pat_completeness auto
termination
proof (relation "measure (\<lambda>(now, st). inactive_count st)")
  show "wf (measure (\<lambda>(now, st). inactive_count st))" by simp
next
  fix now :: nat and st :: KeyPool
  assume "length (API_KEY_STATES st) \<noteq> 0"
    and "scanKeys (API_KEY_STATES st) 0 (currentKeyIndex st) = AllInactive"
  then have "\<exists>s \<in> set (API_KEY_STATES st). \<not> isActive s"
    by (subst (asm) scanKeys.simps) (auto split: if_splits)
  then have "0 < inactive_count st"
    by (auto simp: inactive_count_def filter_empty_conv)
  moreover have "inactive_count (resetAll st) = 0"
    by (simp add: inactive_count_def resetAll_def)
  ultimately show "((now, resetAll st), (now, st)) \<in> measure (\<lambda>(now, st). inactive_count st)"
    by simp
qed

declare getNextGeminiKey.simps [simp del]

definition markKeyError :: "nat \<Rightarrow> js_string \<Rightarrow> KeyPool \<Rightarrow> KeyPool" where
  "markKeyError keyIndex errorMessage st =
     (if keyIndex < length (API_KEY_STATES st) then
        (let keyState = API_KEY_STATES st ! keyIndex;
             keyState1 = keyState\<lparr>errorCount := errorCount keyState + 1,
                                  lastError := Some errorMessage\<rparr>;
             keyState2 = (if errorCount keyState1 \<ge> 3 then keyState1\<lparr>isActive := False\<rparr>
                          else keyState1)
         in st\<lparr>API_KEY_STATES := (API_KEY_STATES st)[keyIndex := keyState2]\<rparr>)
      else st)"

definition markKeySuccess :: "nat \<Rightarrow> KeyPool \<Rightarrow> KeyPool" where
  "markKeySuccess keyIndex st =
     (if keyIndex < length (API_KEY_STATES st) then
        st\<lparr>API_KEY_STATES := (API_KEY_STATES st)
             [keyIndex := (API_KEY_STATES st ! keyIndex)\<lparr>errorCount := 0, lastError := None\<rparr>]\<rparr>
      else st)"

text \<open>
  The states that the four functions can leave behind: the cursor points into the array,
  or the array is empty.
\<close>

definition pool_ok :: "KeyPool \<Rightarrow> bool" where
  "pool_ok st = (API_KEY_STATES st = [] \<or> currentKeyIndex st < length (API_KEY_STATES st))"

section \<open>Completion client (callGeminiAPI)\<close>

text \<open>
  What one request to the provider can come to, as far as the client tells the cases
  apart: a response that is not ok, with its status and the message taken from its body;
  an ok response without \<open>candidates[0].content\<close>, with the block reason of
  \<open>promptFeedback\<close> if there is one; an ok response with content, with the text of its
  first part if there is one; an exception of \<open>fetch\<close> or of reading the body.
\<close>

datatype http_response =
    NotOk nat js_string
  | OkNoContent "js_string option"
  | OkContent "js_string option"
  | Exception js_string

text \<open>One pass through the body of the \<open>while\<close> loop.\<close>

datatype attempt_outcome =
    Throw js_error
  | Return js_string KeyPool
  | Continue KeyPool nat

definition catchBlock :: "nat \<Rightarrow> nat \<Rightarrow> nat \<Rightarrow> js_string \<Rightarrow> KeyPool \<Rightarrow> attempt_outcome" where
  "catchBlock maxTotalRetries attemptCount keyIndex message st =
     Continue (markKeyError keyIndex message st)
       (if attemptCount < maxTotalRetries then 10000 else 0)"

definition attempt ::
  "(nat \<Rightarrow> js_string \<Rightarrow> http_response) \<Rightarrow> (nat \<Rightarrow> nat) \<Rightarrow> nat \<Rightarrow> nat \<Rightarrow> KeyPool
     \<Rightarrow> attempt_outcome" where
  "attempt provider clock maxTotalRetries attemptCount st =
     (case getNextGeminiKey (clock attemptCount) st of
        Inl e \<Rightarrow> Throw e
      | Inr ((apiKey, keyIndex), st1) \<Rightarrow>
          (case provider attemptCount apiKey of
             NotOk status errorMessage \<Rightarrow>
               (let st2 = markKeyError keyIndex errorMessage st1 in
                if status = 403 \<and> js_includes errorMessage (S ''unregistered callers'')
                then Continue st2 10000
                else if status = 400 \<and> js_includes errorMessage (S ''API key not valid'')
                then Continue st2 0
                else if status = 429 \<or> status \<ge> 500
                then Continue st2 10000
                else Continue st2 10000)
           | OkNoContent blockReason \<Rightarrow>
               (if \<not> falsy_str blockReason
                then catchBlock maxTotalRetries attemptCount keyIndex
                       (S ''Content blocked by Gemini: '' @ the blockReason) st1
                else Continue (markKeyError keyIndex (S ''Invalid response structure'') st1) 10000)
           | OkContent text \<Rightarrow>
               (if falsy_str text
                then Continue (markKeyError keyIndex (S ''No text content in response'') st1) 10000
                else Return (the text) (markKeySuccess keyIndex st1))
           | Exception message \<Rightarrow>
               catchBlock maxTotalRetries attemptCount keyIndex message st1))"

record CallOutcome =
  result :: "js_error + js_string"
  pool :: KeyPool
  requests :: nat
  waitedMs :: nat

definition exhausted_message :: "nat \<Rightarrow> js_string" where
  "exhausted_message attemptCount =
     S ''Failed to generate content after '' @ num_str attemptCount
       @ S '' attempts across all API keys. Please check your API keys and try again.''"

function callLoop ::
  "(nat \<Rightarrow> js_string \<Rightarrow> http_response) \<Rightarrow> (nat \<Rightarrow> nat) \<Rightarrow> nat \<Rightarrow> nat \<Rightarrow> KeyPool \<Rightarrow> nat
     \<Rightarrow> CallOutcome" where
  "callLoop provider clock maxTotalRetries attemptCount st waited =
     (if attemptCount < maxTotalRetries then
        (case attempt provider clock maxTotalRetries (attemptCount + 1) st of
           Throw e \<Rightarrow>
             \<lparr> result = Inl e, pool = st, requests = attemptCount, waitedMs = waited \<rparr>
         | Return text st' \<Rightarrow>
             \<lparr> result = Inr text, pool = st', requests = attemptCount + 1, waitedMs = waited \<rparr>
         | Continue st' delay \<Rightarrow>
             callLoop provider clock maxTotalRetries (attemptCount + 1) st' (waited + delay))
      else \<lparr> result = Inl (Error (exhausted_message attemptCount)), pool = st,
             requests = attemptCount, waitedMs = waited \<rparr>)"
  by pat_completeness auto
termination
  by (relation "measure (\<lambda>(provider, clock, maxTotalRetries, attemptCount, st, waited).
        maxTotalRetries - attemptCount)") auto

declare callLoop.simps [simp del]

text \<open>
  \<open>callGeminiAPI\<close>. The prompt, the image, the temperature and the token budget go into
  the request body unchanged at every attempt, so the provider is modelled as a function
  of the attempt number and the key; \<open>clock\<close> is the reading of \<open>Date.now()\<close> at each
  attempt.
\<close>

definition callGeminiAPI ::
  "(nat \<Rightarrow> js_string \<Rightarrow> http_response) \<Rightarrow> (nat \<Rightarrow> nat) \<Rightarrow> js_string \<Rightarrow> KeyPool \<Rightarrow> CallOutcome" where
  "callGeminiAPI provider clock prompt st =
     (let maxTotalRetries = length (API_KEY_STATES st) * 3 in
      if prompt = [] \<or> trim prompt = []
      then \<lparr> result = Inl (Error (S ''Prompt cannot be empty'')), pool = st,
             requests = 0, waitedMs = 0 \<rparr>
      else callLoop provider clock maxTotalRetries 0 st 0)"

definition mk_key :: "js_string \<Rightarrow> nat \<Rightarrow> bool \<Rightarrow> ApiKeyState" where
  "mk_key k e a = \<lparr> key = k, usageCount = 0, errorCount = e, lastError = None,
                    lastUsedAt = None, isActive = a \<rparr>"

text \<open>
  Three configured keys, each of which then fails three times in a row; and a provider
  that first reports a content-safety block and answers from then on.
\<close>

definition three_failures :: "nat \<Rightarrow> KeyPool \<Rightarrow> KeyPool" where
  "three_failures i st =
     markKeyError i (S ''HTTP 500'') (markKeyError i (S ''HTTP 500'')
       (markKeyError i (S ''HTTP 500'') st))"

definition three_keys :: KeyPool where
  "three_keys = (case setGeminiApiKeys [S ''k1'', S ''k2'', S ''k3''] of
                   Inr st \<Rightarrow> st | Inl e \<Rightarrow> initial_pool)"

definition exhausted_pool :: KeyPool where
  "exhausted_pool = three_failures 2 (three_failures 1 (three_failures 0 three_keys))"

definition one_key :: KeyPool where
  "one_key = \<lparr> API_KEY_STATES = [mk_key (S ''k1'') 0 True], currentKeyIndex = 0 \<rparr>"

definition blocked_then_text :: "nat \<Rightarrow> js_string \<Rightarrow> http_response" where
  "blocked_then_text n k =
     (if n = 1 then OkNoContent (Some (S ''SAFETY'')) else OkContent (Some (S ''ok'')))"

definition always_overloaded :: "nat \<Rightarrow> js_string \<Rightarrow> http_response" where
  "always_overloaded n k = NotOk 503 (S ''overloaded'')"

section \<open>Regular-expression replacement\<close>

text \<open>
  \<open>s.replace(/re/g, r)\<close>. An expression is modelled by its matcher: \<open>m s\<close> is the length
  of the match that the expression finds at the very start of \<open>s\<close>, if it finds one.
  The scan goes from left to right, replaces a match by \<open>r\<close> of the matched text and
  goes on behind it. No expression of the program matches the empty string, so a match
  of length 0 is treated as no match.
\<close>

function replaceAll ::
  "(js_string \<Rightarrow> nat option) \<Rightarrow> (js_string \<Rightarrow> js_string) \<Rightarrow> js_string \<Rightarrow> js_string" where
  "replaceAll m r [] = []"
| "replaceAll m r (c # cs) =
     (case m (c # cs) of
        None \<Rightarrow> c # replaceAll m r cs
      | Some k \<Rightarrow>
          if k = 0 then c # replaceAll m r cs
          else r (take k (c # cs)) @ replaceAll m r (drop k (c # cs)))"
  by pat_completeness auto
termination
  by (relation "measure (\<lambda>(m, r, s). length s)") auto

text \<open>An expression anchored with \<open>^\<close> can only match at the start of the string.\<close>

definition replaceStart ::
  "(js_string \<Rightarrow> nat option) \<Rightarrow> (js_string \<Rightarrow> js_string) \<Rightarrow> js_string \<Rightarrow> js_string" where
  "replaceStart m r s =
     (case m s of None \<Rightarrow> s | Some k \<Rightarrow> if k = 0 then s else r (take k s) @ drop k s)"

text \<open>
  The replace with a callback that numbers its matches: the matched texts in order, and
  the string with the \<open>n\<close>-th match replaced by \<open>r n\<close>.
\<close>

function allMatches :: "(js_string \<Rightarrow> nat option) \<Rightarrow> js_string \<Rightarrow> js_string list" where
  "allMatches m [] = []"
| "allMatches m (c # cs) =
     (case m (c # cs) of
        None \<Rightarrow> allMatches m cs
      | Some k \<Rightarrow>
          if k = 0 then allMatches m cs
          else take k (c # cs) # allMatches m (drop k (c # cs)))"
  by pat_completeness auto
termination
  by (relation "measure (\<lambda>(m, s). length s)") auto

function replaceCounting ::
  "(js_string \<Rightarrow> nat option) \<Rightarrow> (nat \<Rightarrow> js_string) \<Rightarrow> nat \<Rightarrow> js_string \<Rightarrow> js_string" where
  "replaceCounting m r n [] = []"
| "replaceCounting m r n (c # cs) =
     (case m (c # cs) of
        None \<Rightarrow> c # replaceCounting m r n cs
      | Some k \<Rightarrow>
          if k = 0 then c # replaceCounting m r n cs
          else r n @ replaceCounting m r (n + 1) (drop k (c # cs)))"
  by pat_completeness auto
termination
  by (relation "measure (\<lambda>(m, r, n, s). length s)") auto

text \<open>\<open>s.replace(p, r)\<close> with a string \<open>p\<close>: the first occurrence only.\<close>

fun replaceFirst :: "js_string \<Rightarrow> js_string \<Rightarrow> js_string \<Rightarrow> js_string" where
  "replaceFirst p r [] = (if p = [] then r else [])"
| "replaceFirst p r (c # cs) =
     (if starts_with p (c # cs) then r @ drop (length p) (c # cs)
      else c # replaceFirst p r cs)"

text \<open>A chain of method calls, applied from left to right.\<close>

definition chain :: "('a \<Rightarrow> 'a) list \<Rightarrow> 'a \<Rightarrow> 'a" where
  "chain fs x = fold (\<lambda>f y. f y) fs x"

subsection \<open>The matchers of the expressions in the sanitizer\<close>

definition is_hex :: "nat \<Rightarrow> bool" where
  "is_hex c = ((48 \<le> c \<and> c \<le> 57) \<or> (97 \<le> c \<and> c \<le> 102) \<or> (65 \<le> c \<and> c \<le> 70))"

definition is_octal :: "nat \<Rightarrow> bool" where
  "is_octal c = (48 \<le> c \<and> c \<le> 55)"

text \<open>
  Under the flag \<open>i\<close> an ASCII letter of the pattern matches its two cases and nothing
  else: a code unit beyond ASCII is never folded onto an ASCII one.
\<close>

definition ascii_upper :: "nat \<Rightarrow> nat" where
  "ascii_upper c = (if 97 \<le> c \<and> c \<le> 122 then c - 32 else c)"

definition starts_with_ci :: "js_string \<Rightarrow> js_string \<Rightarrow> bool" where
  "starts_with_ci p s = (map ascii_upper (take (length p) s) = map ascii_upper p)"

text \<open>A literal text, and a literal text under the flag \<open>i\<close>.\<close>

definition m_lit :: "js_string \<Rightarrow> js_string \<Rightarrow> nat option" where
  "m_lit p s = (if starts_with p s then Some (length p) else None)"

definition m_lit_ci :: "js_string \<Rightarrow> js_string \<Rightarrow> nat option" where
  "m_lit_ci p s = (if starts_with_ci p s then Some (length p) else None)"

text \<open>A character class.\<close>

definition m_class :: "(nat \<Rightarrow> bool) \<Rightarrow> js_string \<Rightarrow> nat option" where
  "m_class P s = (case s of [] \<Rightarrow> None | c # cs \<Rightarrow> if P c then Some 1 else None)"

text \<open>\<open>/^\s*json\s*/gi\<close>\<close>

definition m_leading_json :: "js_string \<Rightarrow> nat option" where
  "m_leading_json s =
     (let k = length (takeWhile js_space s); rest = drop k s in
      if starts_with_ci (S ''json'') rest
      then Some (k + 4 + length (takeWhile js_space (drop 4 rest)))
      else None)"

text \<open>\<open>/[\x00-\x08\x0B-\x0C\x0E-\x1F\x7F]/g\<close>\<close>

definition control_class :: "nat \<Rightarrow> bool" where
  "control_class c = (c \<le> 8 \<or> (11 \<le> c \<and> c \<le> 12) \<or> (14 \<le> c \<and> c \<le> 31) \<or> c = 127)"

text \<open>\<open>/\\u[0-9a-fA-F]{4}/g\<close>\<close>

fun m_valid_unicode :: "js_string \<Rightarrow> nat option" where
  "m_valid_unicode (b # u # h1 # h2 # h3 # h4 # cs) =
     (if b = 92 \<and> u = 117 \<and> is_hex h1 \<and> is_hex h2 \<and> is_hex h3 \<and> is_hex h4
      then Some 6 else None)"
| "m_valid_unicode s = None"

text \<open>\<open>/\\u[^_]/g\<close>\<close>

fun m_unicode_then_other :: "js_string \<Rightarrow> nat option" where
  "m_unicode_then_other (b # u # c # cs) =
     (if b = 92 \<and> u = 117 \<and> c \<noteq> 95 then Some 3 else None)"
| "m_unicode_then_other s = None"

text \<open>\<open>/\\u$/g\<close>\<close>

definition m_unicode_at_end :: "js_string \<Rightarrow> nat option" where
  "m_unicode_at_end s = (if s = [92, 117] then Some 2 else None)"

text \<open>\<open>/,(\s*[}\]])/g\<close>, replaced by its group \<open>$1\<close>\<close>

fun m_trailing_comma :: "js_string \<Rightarrow> nat option" where
  "m_trailing_comma [] = None"
| "m_trailing_comma (c # cs) =
     (if c = 44 then
        (let k = length (takeWhile js_space cs) in
         case drop k cs of
           [] \<Rightarrow> None
         | d # ds \<Rightarrow> if d = 125 \<or> d = 93 then Some (k + 2) else None)
      else None)"

text \<open>\<open>/\s+/g\<close>\<close>

definition m_spaces :: "js_string \<Rightarrow> nat option" where
  "m_spaces s = (let k = length (takeWhile js_space s) in if k = 0 then None else Some k)"

text \<open>\<open>/\\([^"\\\/bfnrtu])/g\<close>, replaced by its group \<open>$1\<close>\<close>

definition json_escape_char :: "nat \<Rightarrow> bool" where
  "json_escape_char c = (c = 34 \<or> c = 92 \<or> c = 47 \<or> c = 98 \<or> c = 102 \<or> c = 110
     \<or> c = 114 \<or> c = 116 \<or> c = 117)"

fun m_invalid_escape :: "js_string \<Rightarrow> nat option" where
  "m_invalid_escape (b # c # cs) = (if b = 92 \<and> \<not> json_escape_char c then Some 2 else None)"
| "m_invalid_escape s = None"

text \<open>\<open>/\\x[0-9a-fA-F]{0,2}/g\<close>\<close>

fun m_hex_escape :: "js_string \<Rightarrow> nat option" where
  "m_hex_escape (b # x # cs) =
     (if b = 92 \<and> x = 120 then Some (2 + length (takeWhile is_hex (take 2 cs))) else None)"
| "m_hex_escape s = None"

text \<open>\<open>/\\[0-7]{1,3}/g\<close>\<close>

fun m_octal_escape :: "js_string \<Rightarrow> nat option" where
  "m_octal_escape [] = None"
| "m_octal_escape (b # cs) =
     (let k = length (takeWhile is_octal (take 3 cs)) in
      if b = 92 \<and> k \<noteq> 0 then Some (1 + k) else None)"

section \<open>The JSON sanitizer (sanitizeJsonString)\<close>

definition fence :: js_string where
  "fence = [96, 96, 96]"

definition escapeProtector :: js_string where
  "escapeProtector = S ''___ESCAPE___''"

text \<open>Step 1: the markdown code fences, a leading \<open>json\<close>, and \<open>trim\<close>.\<close>

definition removeFences :: "js_string \<Rightarrow> js_string" where
  "removeFences jsonString = chain
     [replaceAll (m_lit_ci (fence @ S ''json'')) (\<lambda>t. []),
      replaceAll (m_lit_ci (fence @ S ''javascript'')) (\<lambda>t. []),
      replaceAll (m_lit_ci (fence @ S ''js'')) (\<lambda>t. []),
      replaceAll (m_lit fence) (\<lambda>t. []),
      replaceStart m_leading_json (\<lambda>t. []),
      trim] jsonString"

text \<open>Step 2: protect the escape sequences, blank the control characters, restore.\<close>

definition protectEscapes :: "js_string \<Rightarrow> js_string" where
  "protectEscapes cleaned = chain
     [replaceAll (m_lit [92, 110]) (\<lambda>t. escapeProtector @ S ''n''),
      replaceAll (m_lit [92, 114]) (\<lambda>t. escapeProtector @ S ''r''),
      replaceAll (m_lit [92, 116]) (\<lambda>t. escapeProtector @ S ''t''),
      replaceAll (m_lit [92, 102]) (\<lambda>t. escapeProtector @ S ''f''),
      replaceAll (m_lit [92, 98]) (\<lambda>t. escapeProtector @ S ''b''),
      replaceAll (m_lit [92, 34]) (\<lambda>t. escapeProtector @ S ''quote''),
      replaceAll (m_lit [92, 92]) (\<lambda>t. escapeProtector @ S ''backslash'')] cleaned"

definition blankControls :: "js_string \<Rightarrow> js_string" where
  "blankControls cleaned = chain
     [replaceAll (m_class control_class) (\<lambda>t. [32]),
      replaceAll (m_lit [10]) (\<lambda>t. [32]),
      replaceAll (m_lit [13]) (\<lambda>t. [32]),
      replaceAll (m_lit [9]) (\<lambda>t. [32])] cleaned"

definition restoreEscapes :: "js_string \<Rightarrow> js_string" where
  "restoreEscapes cleaned = chain
     [replaceAll (m_lit (escapeProtector @ S ''n'')) (\<lambda>t. [92, 110]),
      replaceAll (m_lit (escapeProtector @ S ''r'')) (\<lambda>t. [92, 114]),
      replaceAll (m_lit (escapeProtector @ S ''t'')) (\<lambda>t. [92, 116]),
      replaceAll (m_lit (escapeProtector @ S ''f'')) (\<lambda>t. [92, 102]),
      replaceAll (m_lit (escapeProtector @ S ''b'')) (\<lambda>t. [92, 98]),
      replaceAll (m_lit (escapeProtector @ S ''quote'')) (\<lambda>t. [92, 34]),
      replaceAll (m_lit (escapeProtector @ S ''backslash'')) (\<lambda>t. [92, 92])] cleaned"

text \<open>
  Step 3: the quote classes, which in the source hold the plain double quote and the
  plain apostrophe, and the three code units \<open>U+00E2 U+20AC U+00A6\<close>.
\<close>

definition fixQuotes :: "js_string \<Rightarrow> js_string" where
  "fixQuotes cleaned = chain
     [replaceAll (m_class (\<lambda>c. c = 34)) (\<lambda>t. [34]),
      replaceAll (m_class (\<lambda>c. c = 39)) (\<lambda>t. [39]),
      replaceAll (m_lit [226, 8364, 166]) (\<lambda>t. S ''...'')] cleaned"

text \<open>Step 4: the Unicode escapes.\<close>

definition unicodePlaceholder :: "nat \<Rightarrow> js_string" where
  "unicodePlaceholder index = S ''___VALID_UNICODE_'' @ num_str index @ S ''___''"

definition fixUnicodeEscapes :: "js_string \<Rightarrow> js_string" where
  "fixUnicodeEscapes cleaned =
     (let validUnicodes = allMatches m_valid_unicode cleaned;
          cleaned1 = replaceCounting m_valid_unicode unicodePlaceholder 0 cleaned;
          cleaned2 = replaceAll m_unicode_then_other (\<lambda>t. [117]) cleaned1;
          cleaned3 = replaceAll m_unicode_at_end (\<lambda>t. [117]) cleaned2
      in fold (\<lambda>(index, unicode) c. replaceFirst (unicodePlaceholder index) unicode c)
           (enumerate 0 validUnicodes) cleaned3)"

text \<open>Steps 5 to 8.\<close>

definition removeTrailingCommas :: "js_string \<Rightarrow> js_string" where
  "removeTrailingCommas cleaned = replaceAll m_trailing_comma tl cleaned"

definition normalizeSpaces :: "js_string \<Rightarrow> js_string" where
  "normalizeSpaces cleaned = replaceAll m_spaces (\<lambda>t. [32]) cleaned"

definition dropInvalidEscapes :: "js_string \<Rightarrow> js_string" where
  "dropInvalidEscapes cleaned = replaceAll m_invalid_escape tl cleaned"

definition finalSafety :: "js_string \<Rightarrow> js_string" where
  "finalSafety cleaned = chain
     [replaceAll m_hex_escape (\<lambda>t. []),
      replaceAll m_octal_escape (\<lambda>t. []),
      replaceAll (m_class control_class) (\<lambda>t. [])] cleaned"

definition sanitizeJsonString :: "js_string \<Rightarrow> js_string" where
  "sanitizeJsonString jsonString = chain
     [removeFences, protectEscapes, blankControls, restoreEscapes, fixQuotes,
      fixUnicodeEscapes, removeTrailingCommas, normalizeSpaces, dropInvalidEscapes,
      finalSafety] jsonString"

text \<open>A raw control character: a code unit up to \<open>0x1F\<close>, or \<open>0x7F\<close>.\<close>

definition raw_control :: "nat \<Rightarrow> bool" where
  "raw_control c = (c \<le> 31 \<or> c = 127)"

section \<open>The multi-strategy parser (parseJsonRobust)\<close>

datatype expected_type = Array | Object

definition openChar :: "expected_type \<Rightarrow> nat" where
  "openChar e = (case e of Array \<Rightarrow> 91 | Object \<Rightarrow> 123)"

definition closeChar :: "expected_type \<Rightarrow> nat" where
  "closeChar e = (case e of Array \<Rightarrow> 93 | Object \<Rightarrow> 125)"

text \<open>\<open>indexOf\<close> and \<open>lastIndexOf\<close> of a character; \<open>None\<close> is the result \<open>-1\<close>.\<close>

fun indexOf :: "nat \<Rightarrow> js_string \<Rightarrow> nat option" where
  "indexOf c [] = None"
| "indexOf c (x # xs) = (if x = c then Some 0 else map_option Suc (indexOf c xs))"

definition lastIndexOf :: "nat \<Rightarrow> js_string \<Rightarrow> nat option" where
  "lastIndexOf c s = map_option (\<lambda>i. length s - 1 - i) (indexOf c (rev s))"

text \<open>\<open>s.substring(a, b)\<close>, which swaps its arguments when the first is the larger.\<close>

definition substring :: "nat \<Rightarrow> nat \<Rightarrow> js_string \<Rightarrow> js_string" where
  "substring a b s = take (max a b - min a b) (drop (min a b) s)"

text \<open>
  The first match of \<open>/\[[\s\S]*\]/\<close> (or of the same with braces): from the first
  opening bracket to the last closing bracket behind it.
\<close>

definition matchBracketed :: "expected_type \<Rightarrow> js_string \<Rightarrow> js_string option" where
  "matchBracketed e s =
     (case (indexOf (openChar e) s, lastIndexOf (closeChar e) s) of
        (Some i, Some j) \<Rightarrow> if i < j then Some (substring i (j + 1) s) else None
      | _ \<Rightarrow> None)"

text \<open>
  A strategy returns the parsed value or throws; \<open>Inl\<close> holds the message of what it
  throws. \<open>JSON.parse\<close> is a parameter of the model.
\<close>

definition strategy1 :: "(js_string \<Rightarrow> js_string + 'v) \<Rightarrow> js_string \<Rightarrow> expected_type \<Rightarrow> js_string + 'v" where
  "strategy1 parse response e =
     (case matchBracketed e response of
        None \<Rightarrow> Inl (S ''No JSON found in response'')
      | Some m \<Rightarrow> parse (sanitizeJsonString m))"

definition strategy2 :: "(js_string \<Rightarrow> js_string + 'v) \<Rightarrow> js_string \<Rightarrow> expected_type \<Rightarrow> js_string + 'v" where
  "strategy2 parse response e =
     (case indexOf (openChar e) response of
        None \<Rightarrow> Inl (S ''No opening bracket found'')
      | Some startIdx \<Rightarrow> parse (sanitizeJsonString (drop startIdx response)))"

definition strategy3 :: "(js_string \<Rightarrow> js_string + 'v) \<Rightarrow> js_string \<Rightarrow> expected_type \<Rightarrow> js_string + 'v" where
  "strategy3 parse response e =
     (case (indexOf (openChar e) response, lastIndexOf (closeChar e) response) of
        (Some firstIdx, Some lastIdx) \<Rightarrow>
          if lastIdx \<le> firstIdx then Inl (S ''Invalid bracket positions'')
          else parse (sanitizeJsonString (substring firstIdx (lastIdx + 1) response))
      | _ \<Rightarrow> Inl (S ''Invalid bracket positions''))"

text \<open>\<open>/^json\\s*/gi\<close>: the word, a backslash, and any number of the letter \<open>s\<close>.\<close>

definition m_json_backslash :: "js_string \<Rightarrow> nat option" where
  "m_json_backslash s =
     (if starts_with_ci (S ''json'' @ [92]) s
      then Some (5 + length (takeWhile (\<lambda>c. c = 115 \<or> c = 83) (drop 5 s)))
      else None)"

text \<open>\<open>/[\x00-\x1F\x7F-\x9F]/g\<close> and \<open>/[\x00-\x09\x0B-\x1F\x7F-\x9F]/g\<close>\<close>

definition control_or_c1 :: "nat \<Rightarrow> bool" where
  "control_or_c1 c = (c \<le> 31 \<or> (127 \<le> c \<and> c \<le> 159))"

definition control_or_c1_but_lf :: "nat \<Rightarrow> bool" where
  "control_or_c1_but_lf c = (c \<le> 9 \<or> (11 \<le> c \<and> c \<le> 31) \<or> (127 \<le> c \<and> c \<le> 159))"

text \<open>The entries of \<open>escapeMap\<close>, in the order of the object literal.\<close>

definition escapeMap :: "(js_string \<times> js_string) list" where
  "escapeMap =
     [([92, 110], S ''___NEWLINE___''), ([92, 114], S ''___RETURN___''),
      ([92, 116], S ''___TAB___''), ([92, 34], S ''___QUOTE___''),
      ([92, 92], S ''___BACKSLASH___''), ([92, 102], S ''___FORMFEED___''),
      ([92, 98], S ''___BACKSPACE___'')]"

text \<open>\<open>s.split(a).join(b)\<close>\<close>

definition splitJoin :: "js_string \<Rightarrow> js_string \<Rightarrow> js_string \<Rightarrow> js_string" where
  "splitJoin a b s = replaceAll (m_lit a) (\<lambda>t. b) s"

definition aggressiveClean :: "js_string \<Rightarrow> js_string" where
  "aggressiveClean response = chain
     [replaceAll (m_lit_ci (fence @ S ''json'')) (\<lambda>t. []),
      replaceAll (m_lit_ci (fence @ S ''javascript'')) (\<lambda>t. []),
      replaceAll (m_lit_ci (fence @ S ''js'')) (\<lambda>t. []),
      replaceAll (m_lit fence) (\<lambda>t. []),
      replaceStart m_json_backslash (\<lambda>t. []),
      trim,
      fold (\<lambda>(escaped, placeholder) c. splitJoin escaped placeholder c) escapeMap,
      replaceAll (m_class control_or_c1) (\<lambda>t. [32]),
      fold (\<lambda>(escaped, placeholder) c. splitJoin placeholder escaped c) escapeMap,
      replaceAll (m_class (\<lambda>c. c = 34)) (\<lambda>t. [34]),
      replaceAll (m_class (\<lambda>c. c = 39)) (\<lambda>t. [39]),
      replaceAll (m_lit [226, 8364, 166]) (\<lambda>t. S ''...''),
      replaceAll m_spaces (\<lambda>t. [32])] response"

definition strategy4 :: "(js_string \<Rightarrow> js_string + 'v) \<Rightarrow> js_string \<Rightarrow> expected_type \<Rightarrow> js_string + 'v" where
  "strategy4 parse response e =
     (case matchBracketed e (aggressiveClean response) of
        None \<Rightarrow> Inl (S ''No JSON after aggressive cleaning'')
      | Some m \<Rightarrow> parse m)"

text \<open>
  The rebuild strategy numbers its placeholders with one counter over all its passes
  and records in \<open>protectionMap\<close> what each placeholder stands for.
\<close>

definition protectedPlaceholder :: "nat \<Rightarrow> js_string" where
  "protectedPlaceholder n = S ''___PROTECTED_'' @ num_str n @ S ''___''"

record Protection =
  str :: js_string
  protectionCounter :: nat
  protectionMap :: "(js_string \<times> js_string) list"

definition protectPass :: "js_string \<Rightarrow> Protection \<Rightarrow> Protection" where
  "protectPass seq p =
     (let n = length (allMatches (m_lit seq) (str p)) in
      \<lparr> str = replaceCounting (m_lit seq) protectedPlaceholder (protectionCounter p) (str p),
        protectionCounter = protectionCounter p + n,
        protectionMap = protectionMap p
          @ map (\<lambda>i. (protectedPlaceholder i, seq))
              [protectionCounter p ..< protectionCounter p + n] \<rparr>)"

text \<open>A literal, a run of white space, a literal: \<open>/"\s+:/\<close> and its like.\<close>

definition m_spaced :: "js_string \<Rightarrow> js_string \<Rightarrow> js_string \<Rightarrow> nat option" where
  "m_spaced pre post s =
     (if starts_with pre s then
        (let rest = drop (length pre) s; k = length (takeWhile js_space rest) in
         if k \<noteq> 0 \<and> starts_with post (drop k rest)
         then Some (length pre + k + length post) else None)
      else None)"

definition rebuild :: "js_string \<Rightarrow> js_string" where
  "rebuild s =
     (let p = fold protectPass
                [[92, 34], [92, 92], [92, 110], [92, 114], [92, 116], [92, 102], [92, 98]]
                \<lparr> str = s, protectionCounter = 0, protectionMap = [] \<rparr>;
          cleaned = chain
            [replaceAll (m_class control_or_c1_but_lf) (\<lambda>t. [32]),
             replaceAll m_spaces (\<lambda>t. [32]),
             replaceAll m_trailing_comma tl,
             replaceAll (m_spaced [34] [58]) (\<lambda>t. [34, 58]),
             replaceAll (m_spaced [58] [34]) (\<lambda>t. [58, 34]),
             replaceAll (m_spaced [44] [34]) (\<lambda>t. [44, 34]),
             replaceAll (m_spaced [123] [34]) (\<lambda>t. [123, 34]),
             replaceAll (m_spaced [91] []) (\<lambda>t. [91]),
             replaceAll (m_spaced [] [93]) (\<lambda>t. [93]),
             replaceAll (m_spaced [] [125]) (\<lambda>t. [125])] (str p)
      in fold (\<lambda>(placeholder, original) c. splitJoin placeholder original c)
           (protectionMap p) cleaned)"

definition strategy5 :: "(js_string \<Rightarrow> js_string + 'v) \<Rightarrow> js_string \<Rightarrow> expected_type \<Rightarrow> js_string + 'v" where
  "strategy5 parse response e =
     (case (indexOf (openChar e) response, lastIndexOf (closeChar e) response) of
        (Some firstIdx, Some lastIdx) \<Rightarrow>
          parse (rebuild (substring firstIdx (lastIdx + 1) response))
      | _ \<Rightarrow> Inl (S ''Cannot find JSON boundaries''))"

text \<open>
  The loop of the bracket-balancing strategy over the characters from index \<open>i\<close> on:
  the index at which the depth comes back to zero.
\<close>

fun balance :: "nat \<Rightarrow> nat \<Rightarrow> js_string \<Rightarrow> nat \<Rightarrow> int \<Rightarrow> nat option" where
  "balance opn cls [] i depth = None"
| "balance opn cls (x # xs) i depth =
     (let depth1 = (if x = opn then depth + 1 else depth);
          depth2 = (if x = cls then depth1 - 1 else depth1)
      in if depth2 = 0 then Some i else balance opn cls xs (i + 1) depth2)"

definition strategy6 :: "(js_string \<Rightarrow> js_string + 'v) \<Rightarrow> js_string \<Rightarrow> expected_type \<Rightarrow> js_string + 'v" where
  "strategy6 parse response e =
     (case indexOf (openChar e) response of
        None \<Rightarrow> Inl (S ''No opening bracket found'')
      | Some startIdx \<Rightarrow>
          (case balance (openChar e) (closeChar e) (drop startIdx response) startIdx 0 of
             None \<Rightarrow> Inl (S ''No matching closing bracket found'')
           | Some endIdx \<Rightarrow>
               parse (sanitizeJsonString (substring startIdx (endIdx + 1) response))))"

text \<open>
  The loop over the strategies: the first result wins, and every failure adds a line
  to \<open>errors\<close>.
\<close>

fun tryStrategies :: "(js_string + 'v) list \<Rightarrow> nat \<Rightarrow> js_string list \<Rightarrow> js_string list + 'v" where
  "tryStrategies [] i errors = Inl errors"
| "tryStrategies (s # ss) i errors =
     (case s of
        Inr parsed \<Rightarrow> Inr parsed
      | Inl message \<Rightarrow>
          tryStrategies ss (i + 1)
            (errors @ [S ''Strategy '' @ num_str (i + 1) @ S '': '' @ message]))"

definition strategies :: "(js_string \<Rightarrow> js_string + 'v) \<Rightarrow> js_string \<Rightarrow> expected_type \<Rightarrow> (js_string + 'v) list" where
  "strategies parse response e =
     [strategy1 parse response e, strategy2 parse response e, strategy3 parse response e,
      strategy4 parse response e, strategy5 parse response e, strategy6 parse response e]"

definition parseJsonRobust :: "(js_string \<Rightarrow> js_string + 'v) \<Rightarrow> js_string \<Rightarrow> expected_type \<Rightarrow> js_error + 'v" where
  "parseJsonRobust parse response e =
     (case tryStrategies (strategies parse response e) 0 [] of
        Inr parsed \<Rightarrow> Inr parsed
      | Inl errors \<Rightarrow> Inl (Error (S ''Failed to parse AI response. Please try again.'')))"

text \<open>A \<open>JSON.parse\<close> that is never reached by a response without brackets.\<close>

definition no_parse :: "js_string \<Rightarrow> js_string + unit" where
  "no_parse s = Inl (S ''Unexpected token'')"

section \<open>Text that the sanitizer has nothing to do on\<close>





chapter \<open>Properties\<close>

section \<open>Properties of the quota computation\<close>

lemma questionsToGenerate_with_quota [simp]: "questionsToGenerate (with_quota t q) = q"
  by (simp add: with_quota_def Topic.extend_def TopicQuota.fields_def)




lemma loadStats_targets_agree:
  "loadStats_targets tps T = map questionsToGenerate (topics (calculateTopicQuestions tps T))"
  by (simp add: loadStats_targets_def calculateTopicQuestions_def Let_def)

text \<open>
  C5. A topic of weight zero gets quota 1 when the target total is at least 500 and
  quota 0 when it is at most 499; the result carries the extra-item count (the number of
  zero-weight topics from 500 on, otherwise 0) and the main total enlarged by it.
\<close>

theorem zero_weight_quota_threshold:
  "(\<forall>i < length tps. weightage_or (tps ! i) 0 = 0 \<longrightarrow>
      questionsToGenerate (topics (calculateTopicQuestions tps T) ! i)
        = (if T \<ge> 500 then 1 else 0))
   \<and> (T \<le> 499 \<longrightarrow> extraQuestionsCount (calculateTopicQuestions tps T) = 0)
   \<and> (T \<ge> 500 \<longrightarrow>
        extraQuestionsCount (calculateTopicQuestions tps T) = int (zero_weight_count tps))
   \<and> totalQuestionsToGenerate (calculateTopicQuestions tps T)
        = T + extraQuestionsCount (calculateTopicQuestions tps T)
   \<and> length (topics (calculateTopicQuestions tps T)) = length tps"
  by (simp add: calculateTopicQuestions_def Let_def zero_weight_count_def)

theorem zero_weight_quota_threshold_witness:
  "questionsToGenerate (topics (calculateTopicQuestions
       [mk_topic ''a'' (Some (1 / 2)), mk_topic ''b'' (Some 0), mk_topic ''c'' None] 500) ! 1) = 1
   \<and> questionsToGenerate (topics (calculateTopicQuestions
       [mk_topic ''a'' (Some (1 / 2)), mk_topic ''b'' (Some 0), mk_topic ''c'' None] 499) ! 2) = 0
   \<and> extraQuestionsCount (calculateTopicQuestions
       [mk_topic ''a'' (Some (1 / 2)), mk_topic ''b'' (Some 0), mk_topic ''c'' None] 500) = 2
   \<and> extraQuestionsCount (calculateTopicQuestions
       [mk_topic ''a'' (Some (1 / 2)), mk_topic ''b'' (Some 0), mk_topic ''c'' None] 499) = 0"
proof -
  let ?tps = "[mk_topic ''a'' (Some (1 / 2)), mk_topic ''b'' (Some 0), mk_topic ''c'' None]"
  have w1: "weightage_or (?tps ! 1) 0 = 0" and w2: "weightage_or (?tps ! 2) 0 = 0"
    by (simp_all add: weightage_or_def mk_topic_def)
  have n: "zero_weight_count ?tps = 2"
    by (simp add: zero_weight_count_def weightage_or_def mk_topic_def)
  from zero_weight_quota_threshold [of ?tps 500] w1 n
  have a: "questionsToGenerate (topics (calculateTopicQuestions ?tps 500) ! 1) = 1"
    and c: "extraQuestionsCount (calculateTopicQuestions ?tps 500) = 2"
    by simp_all
  from zero_weight_quota_threshold [of ?tps 499] w2
  have b: "questionsToGenerate (topics (calculateTopicQuestions ?tps 499) ! 2) = 0"
    and d: "extraQuestionsCount (calculateTopicQuestions ?tps 499) = 0"
    by simp_all
  from a b c d show ?thesis by simp
qed




section \<open>Properties of structural validation\<close>





section \<open>Properties of the key pool\<close>

lemma next_index_in_range: "i < length ks \<Longrightarrow> Suc i mod length ks < length ks"
  by (cases ks) auto

lemma pool_ok_length:
  "pool_ok st = (length (API_KEY_STATES st) = 0 \<or> currentKeyIndex st < length (API_KEY_STATES st))"
  by (simp add: pool_ok_def)

lemma scanKeys_in_range:
  "i < length ks \<Longrightarrow> scanKeys ks a i \<noteq> OutOfRange"
proof (induction ks a i rule: scanKeys.induct)
  case (1 ks attempts selectedIndex)
  then show ?case
    by (subst scanKeys.simps) (auto simp: next_index_in_range)
qed

lemma scanKeys_all_inactive:
  "\<forall>s \<in> set ks. \<not> isActive s \<Longrightarrow> i < length ks \<Longrightarrow> scanKeys ks a i = AllInactive"
proof (induction ks a i rule: scanKeys.induct)
  case (1 ks attempts selectedIndex)
  then show ?case
    by (subst scanKeys.simps) (auto simp: next_index_in_range)
qed

lemma scanKeys_Found:
  "scanKeys ks a i = Found j \<Longrightarrow> j < length ks \<and> isActive (ks ! j)"
proof (induction ks a i rule: scanKeys.induct)
  case (1 ks attempts selectedIndex)
  from "1.prems" show ?case
    by (subst (asm) scanKeys.simps) (auto split: if_splits dest: "1.IH")
qed

lemma scanKeys_active_here:
  "a < length ks \<Longrightarrow> i < length ks \<Longrightarrow> isActive (ks ! i) \<Longrightarrow> scanKeys ks a i = Found i"
  by (subst scanKeys.simps) simp

lemma useKey_props:
  assumes "i < length (API_KEY_STATES st)" and "useKey now i st = ((k, j), st')"
  shows "k = key (API_KEY_STATES st ! i)" and "j = i"
    and "length (API_KEY_STATES st') = length (API_KEY_STATES st)"
    and "pool_ok st'"
    and "\<forall>n < length (API_KEY_STATES st). isActive (API_KEY_STATES st' ! n)
            = isActive (API_KEY_STATES st ! n)
          \<and> errorCount (API_KEY_STATES st' ! n) = errorCount (API_KEY_STATES st ! n)"
  using assms
  by (auto simp: useKey_def Let_def pool_ok_length nth_list_update next_index_in_range
      split: if_splits)

lemma resetAll_props:
  "length (API_KEY_STATES (resetAll st)) = length (API_KEY_STATES st)"
  "currentKeyIndex (resetAll st) = currentKeyIndex st"
  "\<forall>s \<in> set (API_KEY_STATES (resetAll st)). isActive s \<and> errorCount s = 0"
  "n < length (API_KEY_STATES st) \<Longrightarrow>
     key (API_KEY_STATES (resetAll st) ! n) = key (API_KEY_STATES st ! n)"
  by (auto simp: resetAll_def)

lemma getNextGeminiKey_all_inactive:
  assumes ne: "API_KEY_STATES st \<noteq> []"
    and cur: "currentKeyIndex st < length (API_KEY_STATES st)"
    and scan: "scanKeys (API_KEY_STATES st) 0 (currentKeyIndex st) = AllInactive"
  shows "getNextGeminiKey now st = Inr (useKey now (currentKeyIndex st) (resetAll st))"
proof -
  let ?r = "resetAll st"
  have len: "length (API_KEY_STATES ?r) = length (API_KEY_STATES st)"
    by (rule resetAll_props)
  have "isActive (API_KEY_STATES ?r ! currentKeyIndex st)"
    using resetAll_props(3) [of st] cur len by (metis nth_mem)
  then have "scanKeys (API_KEY_STATES ?r) 0 (currentKeyIndex ?r) = Found (currentKeyIndex st)"
    using ne cur len scanKeys_active_here [of 0 "API_KEY_STATES ?r" "currentKeyIndex st"]
    by (simp add: resetAll_props(2))
  then have "getNextGeminiKey now ?r = Inr (useKey now (currentKeyIndex st) ?r)"
    using ne len by (subst getNextGeminiKey.simps) simp
  then show ?thesis
    using ne scan by (subst getNextGeminiKey.simps) simp
qed

lemma getNextGeminiKey_returns:
  assumes ne: "API_KEY_STATES st \<noteq> []" and ok: "pool_ok st"
  shows "\<exists>i st'. getNextGeminiKey now st = Inr ((key (API_KEY_STATES st ! i), i), st')
           \<and> i < length (API_KEY_STATES st)
           \<and> length (API_KEY_STATES st') = length (API_KEY_STATES st) \<and> pool_ok st'"
proof -
  from ne ok have cur: "currentKeyIndex st < length (API_KEY_STATES st)"
    by (simp add: pool_ok_def)
  show ?thesis
  proof (cases "scanKeys (API_KEY_STATES st) 0 (currentKeyIndex st)")
    case (Found j)
    then have j: "j < length (API_KEY_STATES st)"
      by (simp add: scanKeys_Found)
    obtain k i st' where u: "useKey now j st = ((k, i), st')"
      by (metis surj_pair)
    have "getNextGeminiKey now st = Inr (useKey now j st)"
      using ne Found by (subst getNextGeminiKey.simps) simp
    with u useKey_props [OF j u] j show ?thesis by auto
  next
    case OutOfRange
    with cur show ?thesis by (simp add: scanKeys_in_range)
  next
    case AllInactive
    let ?r = "resetAll st"
    let ?c = "currentKeyIndex st"
    have c: "?c < length (API_KEY_STATES ?r)"
      using cur by (simp add: resetAll_props)
    obtain k i st' where u: "useKey now ?c ?r = ((k, i), st')"
      by (metis surj_pair)
    have "getNextGeminiKey now st = Inr (useKey now ?c ?r)"
      using ne cur AllInactive by (rule getNextGeminiKey_all_inactive)
    with u useKey_props [OF c u] cur show ?thesis
      by (auto simp: resetAll_props)
  qed
qed

lemma markKeyError_props:
  "length (API_KEY_STATES (markKeyError i m st)) = length (API_KEY_STATES st)"
  "currentKeyIndex (markKeyError i m st) = currentKeyIndex st"
  by (simp_all add: markKeyError_def Let_def)

lemma markKeySuccess_props:
  "length (API_KEY_STATES (markKeySuccess i st)) = length (API_KEY_STATES st)"
  "currentKeyIndex (markKeySuccess i st) = currentKeyIndex st"
  by (simp_all add: markKeySuccess_def)

lemma pool_ok_markKeyError: "pool_ok st \<Longrightarrow> pool_ok (markKeyError i m st)"
  by (simp add: pool_ok_length markKeyError_props)

lemma pool_ok_markKeySuccess: "pool_ok st \<Longrightarrow> pool_ok (markKeySuccess i st)"
  by (simp add: pool_ok_length markKeySuccess_props)

lemma pool_ok_initial: "pool_ok initial_pool"
  by (simp add: pool_ok_def initial_pool_def)

lemma pool_ok_setGeminiApiKeys: "setGeminiApiKeys keys = Inr st \<Longrightarrow> pool_ok st \<and> API_KEY_STATES st \<noteq> []"
  by (auto simp: setGeminiApiKeys_def Let_def pool_ok_def split: if_splits)

text \<open>
  C3. Selection throws only on the empty pool. On a pool that holds a key it returns a
  key of the pool; when every key is deactivated it reactivates all of them, sets every
  error count to zero and returns the key under the cursor in the same call.
\<close>

theorem selection_fails_only_on_empty_pool:
  assumes "pool_ok st"
  shows "(API_KEY_STATES st = [] \<longrightarrow>
            getNextGeminiKey now st
              = Inl (Error (S ''No Gemini API keys configured. Please add API keys first.'')))
       \<and> (API_KEY_STATES st \<noteq> [] \<longrightarrow>
            (\<exists>i st'. getNextGeminiKey now st = Inr ((key (API_KEY_STATES st ! i), i), st')
               \<and> i < length (API_KEY_STATES st)))
       \<and> (API_KEY_STATES st \<noteq> [] \<and> (\<forall>s \<in> set (API_KEY_STATES st). \<not> isActive s) \<longrightarrow>
            (\<exists>st'. getNextGeminiKey now st
                 = Inr ((key (API_KEY_STATES st ! currentKeyIndex st), currentKeyIndex st), st')
               \<and> length (API_KEY_STATES st') = length (API_KEY_STATES st)
               \<and> (\<forall>s \<in> set (API_KEY_STATES st'). isActive s \<and> errorCount s = 0)))"
proof (intro conjI impI)
  assume "API_KEY_STATES st = []"
  then show "getNextGeminiKey now st
      = Inl (Error (S ''No Gemini API keys configured. Please add API keys first.''))"
    by (subst getNextGeminiKey.simps) simp
next
  assume "API_KEY_STATES st \<noteq> []"
  with assms getNextGeminiKey_returns [of st now]
  show "\<exists>i st'. getNextGeminiKey now st = Inr ((key (API_KEY_STATES st ! i), i), st')
      \<and> i < length (API_KEY_STATES st)"
    by blast
next
  assume a: "API_KEY_STATES st \<noteq> [] \<and> (\<forall>s \<in> set (API_KEY_STATES st). \<not> isActive s)"
  let ?c = "currentKeyIndex st"
  let ?r = "resetAll st"
  from a assms have cur: "?c < length (API_KEY_STATES st)"
    by (simp add: pool_ok_def)
  with a have "scanKeys (API_KEY_STATES st) 0 ?c = AllInactive"
    by (simp add: scanKeys_all_inactive)
  with a cur have g: "getNextGeminiKey now st = Inr (useKey now ?c ?r)"
    by (simp add: getNextGeminiKey_all_inactive)
  have c: "?c < length (API_KEY_STATES ?r)"
    using cur by (simp add: resetAll_props)
  obtain k i st' where u: "useKey now ?c ?r = ((k, i), st')"
    by (metis surj_pair)
  note p = useKey_props [OF c u]
  have len: "length (API_KEY_STATES st') = length (API_KEY_STATES st)"
    using p(3) by (simp add: resetAll_props)
  have "\<forall>s \<in> set (API_KEY_STATES st'). isActive s \<and> errorCount s = 0"
  proof
    fix s assume "s \<in> set (API_KEY_STATES st')"
    then obtain n where n: "n < length (API_KEY_STATES st')" and s: "s = API_KEY_STATES st' ! n"
      by (metis in_set_conv_nth)
    from n p(3) have n': "n < length (API_KEY_STATES ?r)" by simp
    then have "isActive (API_KEY_STATES ?r ! n) \<and> errorCount (API_KEY_STATES ?r ! n) = 0"
      using resetAll_props(3) [of st] by (metis nth_mem)
    with p(5) n' s show "isActive s \<and> errorCount s = 0" by simp
  qed
  with g u p(1,2) len cur show "\<exists>st'. getNextGeminiKey now st
      = Inr ((key (API_KEY_STATES st ! ?c), ?c), st')
      \<and> length (API_KEY_STATES st') = length (API_KEY_STATES st)
      \<and> (\<forall>s \<in> set (API_KEY_STATES st'). isActive s \<and> errorCount s = 0)"
    by (simp add: resetAll_props)
qed

theorem selection_fails_only_on_empty_pool_witness:
  "pool_ok exhausted_pool
   \<and> map isActive (API_KEY_STATES exhausted_pool) = [False, False, False]
   \<and> map errorCount (API_KEY_STATES exhausted_pool) = [3, 3, 3]
   \<and> (\<exists>st'. getNextGeminiKey 0 exhausted_pool = Inr ((S ''k1'', 0), st')
         \<and> (\<forall>s \<in> set (API_KEY_STATES st'). isActive s \<and> errorCount s = 0))
   \<and> getNextGeminiKey 0 initial_pool
        = Inl (Error (S ''No Gemini API keys configured. Please add API keys first.''))"
proof -
  have e: "API_KEY_STATES exhausted_pool
      = [\<lparr> key = S ''k1'', usageCount = 0, errorCount = 3, lastError = Some (S ''HTTP 500''),
           lastUsedAt = None, isActive = False \<rparr>,
         \<lparr> key = S ''k2'', usageCount = 0, errorCount = 3, lastError = Some (S ''HTTP 500''),
           lastUsedAt = None, isActive = False \<rparr>,
         \<lparr> key = S ''k3'', usageCount = 0, errorCount = 3, lastError = Some (S ''HTTP 500''),
           lastUsedAt = None, isActive = False \<rparr>]"
    and c: "currentKeyIndex exhausted_pool = 0"
    by (simp_all add: exhausted_pool_def three_failures_def three_keys_def setGeminiApiKeys_def
        markKeyError_def Let_def S_def trim_def trimStart_def trimEnd_def js_space_def)
  have ok: "pool_ok exhausted_pool"
    by (simp add: pool_ok_def e c)
  have ok0: "pool_ok initial_pool"
    by (simp add: pool_ok_def initial_pool_def)
  from selection_fails_only_on_empty_pool [OF ok, of 0]
  have a: "\<exists>st'. getNextGeminiKey 0 exhausted_pool = Inr ((S ''k1'', 0), st')
         \<and> (\<forall>s \<in> set (API_KEY_STATES st'). isActive s \<and> errorCount s = 0)"
    by (simp add: e c) blast
  from selection_fails_only_on_empty_pool [OF ok0, of 0]
  have b: "getNextGeminiKey 0 initial_pool
        = Inl (Error (S ''No Gemini API keys configured. Please add API keys first.''))"
    by (simp add: initial_pool_def)
  from ok a b show ?thesis
    by (simp add: e)
qed

section \<open>Properties of the completion client\<close>

lemma attempt_outcome:
  assumes ne: "API_KEY_STATES st \<noteq> []" and ok: "pool_ok st"
  shows "attempt provider clock m a st \<noteq> Throw e"
    and "attempt provider clock m a st = Return t st' \<Longrightarrow>
           t \<noteq> [] \<and> (\<exists>k. provider a k = OkContent (Some t))
           \<and> length (API_KEY_STATES st') = length (API_KEY_STATES st) \<and> pool_ok st'"
    and "attempt provider clock m a st = Continue st' d \<Longrightarrow>
           length (API_KEY_STATES st') = length (API_KEY_STATES st) \<and> pool_ok st'"
proof -
  from getNextGeminiKey_returns [OF ne ok, of "clock a"]
  obtain i st1 where g: "getNextGeminiKey (clock a) st
        = Inr ((key (API_KEY_STATES st ! i), i), st1)"
    and len: "length (API_KEY_STATES st1) = length (API_KEY_STATES st)"
    and ok1: "pool_ok st1"
    by blast
  let ?k = "key (API_KEY_STATES st ! i)"
  show "attempt provider clock m a st \<noteq> Throw e"
    using g by (cases "provider a ?k") (simp_all add: attempt_def catchBlock_def Let_def)
  show "attempt provider clock m a st = Return t st' \<Longrightarrow>
           t \<noteq> [] \<and> (\<exists>k. provider a k = OkContent (Some t))
           \<and> length (API_KEY_STATES st') = length (API_KEY_STATES st) \<and> pool_ok st'"
    using g len ok1
    by (cases "provider a ?k")
       (auto simp: attempt_def catchBlock_def Let_def falsy_str_def markKeySuccess_props
          pool_ok_markKeySuccess split: if_splits option.splits)
  show "attempt provider clock m a st = Continue st' d \<Longrightarrow>
           length (API_KEY_STATES st') = length (API_KEY_STATES st) \<and> pool_ok st'"
    using g len ok1
    by (cases "provider a ?k")
       (auto simp: attempt_def catchBlock_def Let_def markKeyError_props
          pool_ok_markKeyError split: if_splits)
qed

lemma callLoop_outcome:
  "pool_ok st \<Longrightarrow> API_KEY_STATES st \<noteq> [] \<or> m \<le> a \<Longrightarrow> a \<le> m \<Longrightarrow>
   a \<le> requests (callLoop provider clock m a st w)
   \<and> requests (callLoop provider clock m a st w) \<le> m
   \<and> (\<forall>e. result (callLoop provider clock m a st w) = Inl e \<longrightarrow>
          e = Error (exhausted_message m) \<and> requests (callLoop provider clock m a st w) = m)
   \<and> (\<forall>t. result (callLoop provider clock m a st w) = Inr t \<longrightarrow>
          t \<noteq> [] \<and> (\<exists>k. provider (requests (callLoop provider clock m a st w)) k
                            = OkContent (Some t)))"
proof (induction provider clock m a st w rule: callLoop.induct)
  case (1 provider clock m a st w)
  show ?case
  proof (cases "a < m")
    case False
    with "1.prems" have "a = m" by simp
    then have "callLoop provider clock m a st w
        = \<lparr> result = Inl (Error (exhausted_message m)), pool = st,
            requests = m, waitedMs = w \<rparr>"
      by (subst callLoop.simps) simp
    with \<open>a = m\<close> show ?thesis
      by simp
  next
    case True
    with "1.prems" have ne: "API_KEY_STATES st \<noteq> []" by auto
    note ao = attempt_outcome [OF ne "1.prems"(1), of provider clock m "a + 1"]
    show ?thesis
    proof (cases "attempt provider clock m (a + 1) st")
      case (Throw e)
      with ao(1) show ?thesis by simp
    next
      case (Return t st')
      have eq: "callLoop provider clock m a st w
          = \<lparr> result = Inr t, pool = st', requests = a + 1, waitedMs = w \<rparr>"
        using True Return by (subst callLoop.simps) simp
      from ao(2) [OF Return] True show ?thesis
        by (simp add: eq)
    next
      case (Continue st' d)
      have eq: "callLoop provider clock m a st w = callLoop provider clock m (a + 1) st' (w + d)"
        using True Continue by (subst callLoop.simps) simp
      from ao(3) [OF Continue] ne have "pool_ok st'" and "API_KEY_STATES st' \<noteq> [] \<or> m \<le> a + 1"
        by auto
      with "1.IH" [OF True Continue] True
      have "a + 1 \<le> requests (callLoop provider clock m (a + 1) st' (w + d))
        \<and> requests (callLoop provider clock m (a + 1) st' (w + d)) \<le> m
        \<and> (\<forall>e. result (callLoop provider clock m (a + 1) st' (w + d)) = Inl e \<longrightarrow>
              e = Error (exhausted_message m)
              \<and> requests (callLoop provider clock m (a + 1) st' (w + d)) = m)
        \<and> (\<forall>t. result (callLoop provider clock m (a + 1) st' (w + d)) = Inr t \<longrightarrow>
              t \<noteq> [] \<and> (\<exists>k. provider (requests (callLoop provider clock m (a + 1) st' (w + d))) k
                                = OkContent (Some t)))"
        by simp
      then show ?thesis
        unfolding eq by simp
    qed
  qed
qed

text \<open>
  C4. An empty or blank prompt fails at once, with the pool untouched and no request
  made. For any other prompt the client makes at most three requests per configured
  key; when it fails, it has made exactly that many and the error names this count; and
  it fails in this way whenever no request brings a response with a text.
\<close>

theorem attempts_bounded_by_three_per_key:
  "(prompt = [] \<or> trim prompt = [] \<longrightarrow>
      callGeminiAPI provider clock prompt st
        = \<lparr> result = Inl (Error (S ''Prompt cannot be empty'')), pool = st,
            requests = 0, waitedMs = 0 \<rparr>)
   \<and> (trim prompt \<noteq> [] \<and> pool_ok st \<longrightarrow>
        requests (callGeminiAPI provider clock prompt st) \<le> 3 * length (API_KEY_STATES st)
      \<and> (\<forall>e. result (callGeminiAPI provider clock prompt st) = Inl e \<longrightarrow>
             e = Error (exhausted_message (3 * length (API_KEY_STATES st)))
             \<and> requests (callGeminiAPI provider clock prompt st) = 3 * length (API_KEY_STATES st))
      \<and> ((\<forall>n k t. provider n k = OkContent (Some t) \<longrightarrow> t = []) \<longrightarrow>
             result (callGeminiAPI provider clock prompt st)
               = Inl (Error (exhausted_message (3 * length (API_KEY_STATES st))))))"
proof -
  let ?m = "length (API_KEY_STATES st) * 3"
  have blank: "prompt = [] \<or> trim prompt = [] \<longrightarrow>
      callGeminiAPI provider clock prompt st
        = \<lparr> result = Inl (Error (S ''Prompt cannot be empty'')), pool = st,
            requests = 0, waitedMs = 0 \<rparr>"
    by (simp add: callGeminiAPI_def)
  have run: "requests (callGeminiAPI provider clock prompt st) \<le> 3 * length (API_KEY_STATES st)
      \<and> (\<forall>e. result (callGeminiAPI provider clock prompt st) = Inl e \<longrightarrow>
             e = Error (exhausted_message (3 * length (API_KEY_STATES st)))
             \<and> requests (callGeminiAPI provider clock prompt st) = 3 * length (API_KEY_STATES st))
      \<and> ((\<forall>n k t. provider n k = OkContent (Some t) \<longrightarrow> t = []) \<longrightarrow>
             result (callGeminiAPI provider clock prompt st)
               = Inl (Error (exhausted_message (3 * length (API_KEY_STATES st)))))"
    if np: "trim prompt \<noteq> []" and ok: "pool_ok st"
  proof -
    from np have p: "prompt \<noteq> []"
      by (auto simp: trim_def trimStart_def trimEnd_def)
    have eq: "callGeminiAPI provider clock prompt st = callLoop provider clock ?m 0 st 0"
      using np p by (simp add: callGeminiAPI_def)
    have pre: "API_KEY_STATES st \<noteq> [] \<or> ?m \<le> 0" by auto
    note o = callLoop_outcome [OF ok pre, of provider clock 0, simplified]
    have m: "?m = 3 * length (API_KEY_STATES st)" by simp
    from o have a: "requests (callLoop provider clock ?m 0 st 0) \<le> ?m"
      and b: "\<forall>e. result (callLoop provider clock ?m 0 st 0) = Inl e \<longrightarrow>
          e = Error (exhausted_message ?m) \<and> requests (callLoop provider clock ?m 0 st 0) = ?m"
      and c: "\<forall>t. result (callLoop provider clock ?m 0 st 0) = Inr t \<longrightarrow>
          t \<noteq> [] \<and> (\<exists>k. provider (requests (callLoop provider clock ?m 0 st 0)) k
                            = OkContent (Some t))"
      by blast+
    have d: "result (callLoop provider clock ?m 0 st 0) = Inl (Error (exhausted_message ?m))"
      if none: "\<forall>n k t. provider n k = OkContent (Some t) \<longrightarrow> t = []"
    proof (cases "result (callLoop provider clock ?m 0 st 0)")
      case (Inl e)
      with b show ?thesis by simp
    next
      case (Inr t)
      with c none show ?thesis by blast
    qed
    from a b d show ?thesis
      unfolding eq m by blast
  qed
  from blank run show ?thesis by blast
qed

lemma trim_hi: "trim (S ''hi'') = S ''hi''"
  by (simp add: trim_def trimStart_def trimEnd_def S_def js_space_def)

text \<open>
  C2. The code does not stop at a content-safety block. The error raised for the block
  is thrown inside the \<open>try\<close> of the loop body, so the \<open>catch\<close> of the same
  body takes it, counts it against the key and lets the loop go on: with one key, a
  provider that reports a block at the first request and answers at the second makes the
  call succeed after two requests.
\<close>

theorem content_block_is_retried:
  "result (callGeminiAPI blocked_then_text (\<lambda>n. n) (S ''hi'') one_key) = Inr (S ''ok'')
   \<and> requests (callGeminiAPI blocked_then_text (\<lambda>n. n) (S ''hi'') one_key) = 2"
  by (simp add: callGeminiAPI_def callLoop.simps attempt_def getNextGeminiKey.simps
      scanKeys.simps useKey_def one_key_def mk_key_def blocked_then_text_def catchBlock_def
      markKeyError_def markKeySuccess_def falsy_str_def Let_def trim_hi)
     (simp add: S_def)

lemma exhausted_message_3:
  "exhausted_message 3
     = S ''Failed to generate content after 3 attempts across all API keys. Please check your API keys and try again.''"
  by (simp add: exhausted_message_def num_str.simps S_def)

text \<open>
  An instance: a blank prompt, and a provider that is always overloaded.
\<close>

theorem attempts_bounded_by_three_per_key_witness:
  "callGeminiAPI always_overloaded (\<lambda>n. n) (S ''  '') one_key
     = \<lparr> result = Inl (Error (S ''Prompt cannot be empty'')), pool = one_key,
         requests = 0, waitedMs = 0 \<rparr>
   \<and> result (callGeminiAPI always_overloaded (\<lambda>n. n) (S ''hi'') one_key)
       = Inl (Error (S ''Failed to generate content after 3 attempts across all API keys. Please check your API keys and try again.''))
   \<and> requests (callGeminiAPI always_overloaded (\<lambda>n. n) (S ''hi'') one_key) = 3"
proof -
  have b: "trim (S ''  '') = []"
    by (simp add: trim_def trimStart_def trimEnd_def S_def js_space_def)
  have h: "trim (S ''hi'') \<noteq> []"
    unfolding trim_hi by (simp add: S_def)
  have ok: "pool_ok one_key" and len: "length (API_KEY_STATES one_key) = 1"
    by (simp_all add: pool_ok_def one_key_def)
  have none: "\<forall>n k t. always_overloaded n k = OkContent (Some t) \<longrightarrow> t = []"
    by (simp add: always_overloaded_def)
  from attempts_bounded_by_three_per_key
    [where prompt = "S ''  ''" and provider = always_overloaded and clock = "\<lambda>n. n"
       and st = one_key] b
  have 1: "callGeminiAPI always_overloaded (\<lambda>n. n) (S ''  '') one_key
     = \<lparr> result = Inl (Error (S ''Prompt cannot be empty'')), pool = one_key,
         requests = 0, waitedMs = 0 \<rparr>"
    by simp
  note t = attempts_bounded_by_three_per_key
    [where prompt = "S ''hi''" and provider = always_overloaded and clock = "\<lambda>n. n"
       and st = one_key]
  from t h ok none
  have "result (callGeminiAPI always_overloaded (\<lambda>n. n) (S ''hi'') one_key)
       = Inl (Error (exhausted_message (3 * length (API_KEY_STATES one_key))))"
    by blast
  moreover from t h ok this
  have "requests (callGeminiAPI always_overloaded (\<lambda>n. n) (S ''hi'') one_key)
       = 3 * length (API_KEY_STATES one_key)"
    by blast
  ultimately have 2: "result (callGeminiAPI always_overloaded (\<lambda>n. n) (S ''hi'') one_key)
       = Inl (Error (exhausted_message 3))
    \<and> requests (callGeminiAPI always_overloaded (\<lambda>n. n) (S ''hi'') one_key) = 3"
    unfolding len by simp
  from 1 2 show ?thesis
    unfolding exhausted_message_3 by simp
qed

section \<open>Properties of the sanitizer\<close>

lemmas sanitizer_eval =
  sanitizeJsonString_def chain_def removeFences_def protectEscapes_def blankControls_def
  restoreEscapes_def fixQuotes_def fixUnicodeEscapes_def removeTrailingCommas_def
  normalizeSpaces_def dropInvalidEscapes_def finalSafety_def replaceStart_def
  m_lit_def m_lit_ci_def m_class_def m_leading_json_def m_unicode_at_end_def m_spaces_def
  starts_with_def starts_with_ci_def ascii_upper_def js_space_def is_hex_def is_octal_def
  control_class_def json_escape_char_def fence_def escapeProtector_def S_def
  trim_def trimStart_def trimEnd_def Let_def

text \<open>What a global replace can put into its result.\<close>

lemma replaceAll_chars:
  assumes keep: "\<And>c cs. m (c # cs) = None \<or> m (c # cs) = Some 0 \<Longrightarrow> Q c"
    and new: "\<And>t. \<forall>c \<in> set (r t). Q c"
  shows "\<forall>c \<in> set (replaceAll m r s). Q c"
proof (induction s rule: length_induct)
  case (1 s)
  show ?case
  proof (cases s)
    case Nil
    then show ?thesis by simp
  next
    case (Cons c cs)
    have "length cs < length s"
      using Cons by simp
    with 1 have tail: "\<forall>x \<in> set (replaceAll m r cs). Q x"
      by blast
    show ?thesis
    proof (cases "m (c # cs)")
      case None
      with keep [of c cs] tail Cons show ?thesis by simp
    next
      case (Some k)
      show ?thesis
      proof (cases "k = 0")
        case True
        with keep [of c cs] tail Cons Some show ?thesis by simp
      next
        case False
        then have "length (drop k (c # cs)) < length s"
          using Cons by simp
        with 1 have "\<forall>x \<in> set (replaceAll m r (drop k (c # cs))). Q x"
          by blast
        with new [of "take k (c # cs)"] Some False Cons show ?thesis
          by (simp add: ball_Un)
      qed
    qed
  qed
qed

lemma replaceAll_subset:
  assumes sub: "\<And>t. set (r t) \<subseteq> set t"
  shows "set (replaceAll m r s) \<subseteq> set s"
proof (induction s rule: length_induct)
  case (1 s)
  show ?case
  proof (cases s)
    case Nil
    then show ?thesis by simp
  next
    case (Cons c cs)
    have "length cs < length s"
      using Cons by simp
    with 1 have tail: "set (replaceAll m r cs) \<subseteq> set cs"
      by blast
    show ?thesis
    proof (cases "m (c # cs)")
      case None
      with tail Cons show ?thesis by auto
    next
      case (Some k)
      show ?thesis
      proof (cases "k = 0")
        case True
        with tail Cons Some show ?thesis by auto
      next
        case False
        then have "length (drop k (c # cs)) < length s"
          using Cons by simp
        with 1 have "set (replaceAll m r (drop k (c # cs))) \<subseteq> set (drop k (c # cs))"
          by blast
        then have d: "set (replaceAll m r (drop k (c # cs))) \<subseteq> set (c # cs)"
          using set_drop_subset [of k "c # cs"] by (rule order_trans)
        have t: "set (r (take k (c # cs))) \<subseteq> set (c # cs)"
          using sub [of "take k (c # cs)"] set_take_subset [of k "c # cs"]
          by (rule order_trans)
        from d t Some False Cons show ?thesis by simp
      qed
    qed
  qed
qed

lemma normalizeSpaces_chars: "\<forall>c \<in> set (normalizeSpaces s). js_space c \<longrightarrow> c = 32"
  unfolding normalizeSpaces_def
  by (rule replaceAll_chars) (auto simp: m_spaces_def Let_def split: if_splits)

lemma dropInvalidEscapes_subset: "set (dropInvalidEscapes s) \<subseteq> set s"
  unfolding dropInvalidEscapes_def
proof (rule replaceAll_subset)
  fix t :: js_string
  show "set (tl t) \<subseteq> set t" by (cases t) auto
qed

lemma finalSafety_chars:
  "\<forall>c \<in> set (finalSafety s). c \<in> set s \<and> \<not> control_class c"
proof -
  let ?a = "replaceAll m_hex_escape (\<lambda>t. []) s"
  let ?b = "replaceAll m_octal_escape (\<lambda>t. []) ?a"
  let ?c = "replaceAll (m_class control_class) (\<lambda>t. []) ?b"
  have f: "finalSafety s = ?c"
    by (simp add: finalSafety_def chain_def)
  have "set ?a \<subseteq> set s" by (rule replaceAll_subset) simp
  moreover have "set ?b \<subseteq> set ?a" by (rule replaceAll_subset) simp
  moreover have "set ?c \<subseteq> set ?b" by (rule replaceAll_subset) simp
  ultimately have sub: "set ?c \<subseteq> set s" by blast
  have "\<forall>c \<in> set ?c. \<not> control_class c"
    by (rule replaceAll_chars) (auto simp: m_class_def split: if_splits)
  with sub show ?thesis unfolding f by blast
qed

text \<open>
  C10. The result of the sanitizer holds no raw control character: no code unit from
  \<open>0x00\<close> to \<open>0x1F\<close> and no \<open>0x7F\<close>.
\<close>

theorem sanitized_has_no_raw_control:
  "\<forall>c \<in> set (sanitizeJsonString x). \<not> raw_control c"
proof
  fix c assume c: "c \<in> set (sanitizeJsonString x)"
  obtain y where s: "sanitizeJsonString x = finalSafety (dropInvalidEscapes (normalizeSpaces y))"
    by (simp add: sanitizeJsonString_def chain_def)
  from c s finalSafety_chars
  have "c \<in> set (dropInvalidEscapes (normalizeSpaces y))" and nc: "\<not> control_class c"
    by auto
  then have "c \<in> set (normalizeSpaces y)"
    using dropInvalidEscapes_subset by blast
  then have "js_space c \<longrightarrow> c = 32"
    using normalizeSpaces_chars by blast
  with nc show "\<not> raw_control c"
    by (auto simp: raw_control_def control_class_def js_space_def)
qed

theorem sanitized_has_no_raw_control_witness:
  "sanitizeJsonString [1, 97, 10, 98, 9] = [32, 97, 32, 98]
   \<and> \<not> raw_control 32 \<and> \<not> raw_control 97 \<and> \<not> raw_control 98"
proof -
  have e: "sanitizeJsonString [1, 97, 10, 98, 9] = [32, 97, 32, 98]"
    by (simp add: sanitizer_eval)
  from sanitized_has_no_raw_control [of "[1, 97, 10, 98, 9]"]
  have "\<forall>c \<in> set [32, 97, 32, 98 :: nat]. \<not> raw_control c"
    unfolding e .
  with e show ?thesis by simp
qed

text \<open>
  C7. The code does not keep the character behind an invalid \<open>\u\<close>: the expression that
  rewrites it also takes the next code unit, so backslash, \<open>u\<close>, \<open>Z\<close> comes out as the
  single letter \<open>u\<close>. Before an underscore the invalid \<open>\u\<close> is not rewritten at all.
\<close>

theorem invalid_unicode_escape_loses_next_char:
  "sanitizeJsonString [92, 117, 90] = [117]
   \<and> sanitizeJsonString [92, 117, 95] = [92, 117, 95]"
  by (simp add: sanitizer_eval)


section \<open>Properties of the multi-strategy parser\<close>

lemma parseJsonRobust_cases:
  "(\<exists>v. parseJsonRobust parse response e = Inr v)
   \<or> parseJsonRobust parse response e
       = Inl (Error (S ''Failed to parse AI response. Please try again.''))"
  by (cases "tryStrategies (strategies parse response e) 0 []")
     (simp_all add: parseJsonRobust_def)

lemma no_brackets_errors:
  "tryStrategies (strategies no_parse (S ''I cannot answer that.'') Array) 0 []
     = Inl [S ''Strategy 1: No JSON found in response'',
            S ''Strategy 2: No opening bracket found'',
            S ''Strategy 3: Invalid bracket positions'',
            S ''Strategy 4: No JSON after aggressive cleaning'',
            S ''Strategy 5: Cannot find JSON boundaries'',
            S ''Strategy 6: No opening bracket found'']"
  by (simp add: strategies_def strategy1_def strategy2_def strategy3_def strategy4_def
      strategy5_def strategy6_def matchBracketed_def lastIndexOf_def openChar_def closeChar_def
      aggressiveClean_def splitJoin_def escapeMap_def m_json_backslash_def control_or_c1_def
      num_str.simps sanitizer_eval)

text \<open>
  C8. The error that the parser throws when every strategy has failed is one fixed
  sentence. The reasons of the strategies are gathered in \<open>errors\<close> and then dropped:
  for a response without brackets the six reasons are gathered, and the error thrown
  names none of them and no count.
\<close>

theorem parse_failure_message_is_fixed:
  "((\<exists>v. parseJsonRobust parse response e = Inr v)
     \<or> parseJsonRobust parse response e
         = Inl (Error (S ''Failed to parse AI response. Please try again.'')))
   \<and> tryStrategies (strategies no_parse (S ''I cannot answer that.'') Array) 0 []
       = Inl [S ''Strategy 1: No JSON found in response'',
              S ''Strategy 2: No opening bracket found'',
              S ''Strategy 3: Invalid bracket positions'',
              S ''Strategy 4: No JSON after aggressive cleaning'',
              S ''Strategy 5: Cannot find JSON boundaries'',
              S ''Strategy 6: No opening bracket found'']
   \<and> parseJsonRobust no_parse (S ''I cannot answer that.'') Array
       = Inl (Error (S ''Failed to parse AI response. Please try again.''))"
proof -
  have "parseJsonRobust no_parse (S ''I cannot answer that.'') Array
       = Inl (Error (S ''Failed to parse AI response. Please try again.''))"
    unfolding parseJsonRobust_def no_brackets_errors by simp
  with parseJsonRobust_cases [of parse response e] no_brackets_errors show ?thesis
    by (intro conjI)
qed

section \<open>The sanitizer on clean text\<close>
































end
